theory Spec2Isabelle
  imports Complex_Main "HOL-Library.Word" "HOL-Library.Signed_Division"
begin

unbundle bit_operations_syntax

section \<open>The fallback widget theme of \<^verbatim>\<open>native_theme_android.cc\<close>\<close>

text \<open>
  The theme turns a widget part, a state, a destination rectangle and part-specific extra
  parameters into calls on a drawing surface. The embedding below keeps the functions of
  \<^verbatim>\<open>ui/base/native_theme/native_theme_android.cc\<close> under their own names.

  \<^item> A C++ \<^verbatim>\<open>int\<close> is an Isabelle \<open>int\<close>; \<^verbatim>\<open>/\<close> on ints truncates towards zero and is
    written \<open>sdiv\<close>. Signed overflow (undefined in C++) is not modelled.
  \<^item> A finite \<^verbatim>\<open>SkScalar\<close> or \<^verbatim>\<open>double\<close> is the real number it denotes. Every operation
    of the colour arithmetic rounds its exact result to binary32 or binary64, as the
    section on floating-point arithmetic describes. The conversion of an int coordinate
    to \<^verbatim>\<open>SkScalar\<close> and the half-pixel offsets of the arrow outlines are written without
    rounding: they are exact for coordinates below \<open>2^23\<close>.
  \<^item> The \<^verbatim>\<open>float\<close> arithmetic of the progress bar is kept abstract (a type \<open>'f\<close> with the
    two operations the routine performs), so nothing is assumed about rounding, division
    by zero or the conversion back to \<^verbatim>\<open>int\<close>.
  \<^item> The canvas is the list of calls made on it so far; every drawing call appends one
    entry. The construction of a gradient shader is recorded in the same list.
  \<^item> Skia's colour-space conversions, the resource bundle and \<^verbatim>\<open>gfx::Rect::Center\<close> are
    not part of the file; they are the fields of a \<open>platform\<close> record that every routine
    receives.
\<close>

subsection \<open>Colours\<close>

type_synonym SkScalar = real
type_synonym SkColor = "32 word"
type_synonym SkAlpha = "8 word"

text \<open>Skia packs a colour as ARGB, eight bits per channel.\<close>

definition SkColorSetARGB :: "8 word \<Rightarrow> 8 word \<Rightarrow> 8 word \<Rightarrow> 8 word \<Rightarrow> SkColor" where
  "SkColorSetARGB a r g b =
     push_bit 24 (ucast a) OR push_bit 16 (ucast r) OR push_bit 8 (ucast g) OR ucast b"

definition SkColorSetRGB :: "8 word \<Rightarrow> 8 word \<Rightarrow> 8 word \<Rightarrow> SkColor" where
  "SkColorSetRGB r g b = SkColorSetARGB 0xFF r g b"

definition SkColorGetA :: "SkColor \<Rightarrow> SkAlpha" where
  "SkColorGetA c = ucast (drop_bit 24 c)"

definition SK_ColorBLACK :: SkColor where
  "SK_ColorBLACK = 0xFF000000"

definition SK_ColorWHITE :: SkColor where
  "SK_ColorWHITE = 0xFFFFFFFF"

text \<open>An \<^verbatim>\<open>SkScalar[3]\<close> holding hue, saturation and value.\<close>

type_synonym SkHSV = "SkScalar \<times> SkScalar \<times> SkScalar"

record HSL =
  hsl_h :: real
  hsl_s :: real
  hsl_l :: real

subsection \<open>Geometry\<close>

record Size =
  size_width :: int
  size_height :: int

definition Size_empty :: Size where
  "Size_empty = \<lparr>size_width = 0, size_height = 0\<rparr>"

definition Size_of :: "int \<Rightarrow> int \<Rightarrow> Size" where
  "Size_of w h = \<lparr>size_width = w, size_height = h\<rparr>"

record Rect =
  rect_x :: int
  rect_y :: int
  rect_width :: int
  rect_height :: int

definition right :: "Rect \<Rightarrow> int" where
  "right r = rect_x r + rect_width r"

definition bottom :: "Rect \<Rightarrow> int" where
  "bottom r = rect_y r + rect_height r"

text \<open>
  The rectangles of the spec have a width and a height of zero or more. The two setters
  are called by the theme with \<^verbatim>\<open>rect.height() / 2\<close> and
  \<^verbatim>\<open>rect.y() + rect.height() / 2\<close> only.
\<close>

definition set_height :: "int \<Rightarrow> Rect \<Rightarrow> Rect" where
  "set_height h r = r\<lparr>rect_height := h\<rparr>"

definition set_y :: "int \<Rightarrow> Rect \<Rightarrow> Rect" where
  "set_y v r = r\<lparr>rect_y := v\<rparr>"

type_synonym SkIRect = "int \<times> int \<times> int \<times> int"
type_synonym SkRect = "SkScalar \<times> SkScalar \<times> SkScalar \<times> SkScalar"
type_synonym SkPoint = "SkScalar \<times> SkScalar"

datatype path_verb =
  moveTo SkScalar SkScalar
  | lineTo SkScalar SkScalar
  | rLineTo SkScalar SkScalar
  | close_path

type_synonym SkPath = "path_verb list"

subsection \<open>Paints, shaders and the recorded canvas\<close>

datatype Style = kFill_Style | kStroke_Style

datatype SkShader = LinearGradient "SkPoint list" "SkColor list"

record SkPaint =
  paint_color :: SkColor
  paint_style :: Style
  paint_anti_alias :: bool
  paint_shader :: "SkShader option"

text \<open>A default-constructed \<^verbatim>\<open>SkPaint\<close>: opaque black, fill, no anti-aliasing, no shader.\<close>

definition SkPaint_new :: SkPaint where
  "SkPaint_new = \<lparr>paint_color = SK_ColorBLACK, paint_style = kFill_Style,
                   paint_anti_alias = False, paint_shader = None\<rparr>"

definition setARGB :: "8 word \<Rightarrow> 8 word \<Rightarrow> 8 word \<Rightarrow> 8 word \<Rightarrow> SkPaint \<Rightarrow> SkPaint" where
  "setARGB a r g b p = p\<lparr>paint_color := SkColorSetARGB a r g b\<rparr>"

datatype resource_id =
  IDR_CHECKBOX_DISABLED_INDETERMINATE
  | IDR_CHECKBOX_INDETERMINATE
  | IDR_CHECKBOX_DISABLED_ON
  | IDR_CHECKBOX_ON
  | IDR_CHECKBOX_DISABLED_OFF
  | IDR_CHECKBOX_OFF
  | IDR_RADIO_DISABLED_ON
  | IDR_RADIO_DISABLED_OFF
  | IDR_RADIO_ON
  | IDR_RADIO_OFF
  | IDR_PROGRESS_BAR
  | IDR_PROGRESS_BORDER_LEFT
  | IDR_PROGRESS_BORDER_RIGHT
  | IDR_PROGRESS_VALUE

text \<open>
  One entry per call on the drawing surface. An image is named by the resource it was
  looked up from. \<open>CreateLinear\<close> records a call of \<^verbatim>\<open>SkGradientShader::CreateLinear\<close>.
\<close>

datatype 'f call =
  DrawIRect SkIRect SkPaint
  | DrawRect SkRect SkPaint
  | DrawPath SkPath SkPaint
  | DrawLine SkScalar SkScalar SkScalar SkScalar SkPaint
  | DrawPoint SkScalar SkScalar SkPaint
  | CreateLinear "SkPoint list" "SkColor list"
  | CanvasDrawImageInt resource_id int int int int int int int int bool
  | CanvasTileImageInt resource_id int int 'f 'f int int int int

type_synonym 'f canvas = "'f call list"

definition drawIRect :: "'f canvas \<Rightarrow> SkIRect \<Rightarrow> SkPaint \<Rightarrow> 'f canvas" where
  "drawIRect canvas r p = canvas @ [DrawIRect r p]"

definition drawRect :: "'f canvas \<Rightarrow> SkRect \<Rightarrow> SkPaint \<Rightarrow> 'f canvas" where
  "drawRect canvas r p = canvas @ [DrawRect r p]"

definition drawPath :: "'f canvas \<Rightarrow> SkPath \<Rightarrow> SkPaint \<Rightarrow> 'f canvas" where
  "drawPath canvas path p = canvas @ [DrawPath path p]"

definition drawLine ::
  "'f canvas \<Rightarrow> SkScalar \<Rightarrow> SkScalar \<Rightarrow> SkScalar \<Rightarrow> SkScalar \<Rightarrow> SkPaint \<Rightarrow> 'f canvas" where
  "drawLine canvas x0 y0 x1 y1 p = canvas @ [DrawLine x0 y0 x1 y1 p]"

definition drawPoint :: "'f canvas \<Rightarrow> SkScalar \<Rightarrow> SkScalar \<Rightarrow> SkPaint \<Rightarrow> 'f canvas" where
  "drawPoint canvas px py p = canvas @ [DrawPoint px py p]"

subsection \<open>What the file takes from its platform\<close>

record 'f platform =
  SkColorToHSV :: "SkColor \<Rightarrow> SkHSV"
  SkHSVToColor :: "SkHSV \<Rightarrow> SkColor"
  SkColorToHSL :: "SkColor \<Rightarrow> HSL"
  HSLToSkColor :: "HSL \<Rightarrow> SkAlpha \<Rightarrow> SkColor"
  image_width :: "resource_id \<Rightarrow> int"
  image_height :: "resource_id \<Rightarrow> int"
  Center :: "Rect \<Rightarrow> Size \<Rightarrow> Rect"
  float_div :: "int \<Rightarrow> int \<Rightarrow> 'f"
  float_mul_to_int :: "int \<Rightarrow> 'f \<Rightarrow> int"

text \<open>
  \<open>float_div a b\<close> is \<^verbatim>\<open>static_cast<float>(a) / b\<close> and \<open>float_mul_to_int a s\<close> is
  \<^verbatim>\<open>static_cast<int>(a * s)\<close>.
\<close>

subsection \<open>Parts, states and extra parameters\<close>

text \<open>
  Modelled from the spec: the enumerations \<^verbatim>\<open>Part\<close> and \<^verbatim>\<open>State\<close> and the parameter
  structs are declared in \<^verbatim>\<open>native_theme.h\<close>, which is not among the sources. The parts
  are the thirteen the two \<^verbatim>\<open>switch\<close> statements name, so their \<^verbatim>\<open>default\<close> branches
  (\<^verbatim>\<open>NOTREACHED\<close>) have no value to run on. \<^verbatim>\<open>ExtraParams\<close> is a C++ union of which
  every routine reads exactly one member; it is modelled with all members side by side
  (\<open>button_params\<close> for \<^verbatim>\<open>extra.button\<close>, and so on).
\<close>

datatype Part =
  kScrollbarDownArrow
  | kScrollbarUpArrow
  | kScrollbarLeftArrow
  | kScrollbarRightArrow
  | kCheckbox
  | kRadio
  | kPushButton
  | kTextField
  | kMenuList
  | kSliderTrack
  | kSliderThumb
  | kInnerSpinButton
  | kProgressBar

datatype State = kDisabled | kHovered | kNormal | kPressed

record ButtonExtraParams =
  checked :: bool
  indeterminate :: bool
  button_has_border :: bool
  button_background_color :: SkColor

record TextFieldExtraParams =
  is_text_area :: bool
  is_listbox :: bool
  text_background_color :: SkColor

record MenuListExtraParams =
  menu_has_border :: bool
  has_border_radius :: bool
  arrow_x :: int
  arrow_y :: int
  menu_background_color :: SkColor

record SliderExtraParams =
  vertical :: bool
  in_drag :: bool

record InnerSpinButtonExtraParams =
  spin_up :: bool
  read_only :: bool

record ProgressBarExtraParams =
  value_rect_x :: int
  value_rect_y :: int
  value_rect_width :: int
  value_rect_height :: int

record ExtraParams =
  button_params :: ButtonExtraParams
  text_field_params :: TextFieldExtraParams
  menu_list_params :: MenuListExtraParams
  slider_params :: SliderExtraParams
  inner_spin_params :: InnerSpinButtonExtraParams
  progress_bar_params :: ProgressBarExtraParams

subsection \<open>Constants\<close>

definition kButtonLength :: int where "kButtonLength = 14"
definition kScrollbarWidth :: int where "kScrollbarWidth = 15"
definition kThumbInactiveColor :: SkColor where "kThumbInactiveColor = 0xeaeaea"
definition kTrackColor :: SkColor where "kTrackColor = 0xd3d3d3"
definition kCheckboxAndRadioWidth :: int where "kCheckboxAndRadioWidth = 13"
definition kCheckboxAndRadioHeight :: int where "kCheckboxAndRadioHeight = 13"
definition kSliderThumbWidth :: int where "kSliderThumbWidth = 11"
definition kSliderThumbHeight :: int where "kSliderThumbHeight = 21"

definition kSliderTrackBackgroundColor :: SkColor where
  "kSliderTrackBackgroundColor = SkColorSetRGB 0xe3 0xdd 0xd8"

definition kSliderThumbLightGrey :: SkColor where
  "kSliderThumbLightGrey = SkColorSetRGB 0xf4 0xf2 0xef"

definition kSliderThumbDarkGrey :: SkColor where
  "kSliderThumbDarkGrey = SkColorSetRGB 0xea 0xe5 0xe0"

definition kSliderThumbBorderDarkGrey :: SkColor where
  "kSliderThumbBorderDarkGrey = SkColorSetRGB 0x9d 0x96 0x8e"

subsection \<open>Floating-point arithmetic\<close>

text \<open>
  \<^verbatim>\<open>SkScalar\<close> is a C \<^verbatim>\<open>float\<close> (IEEE binary32); the literals of the source and the
  lightness of an HSL colour are \<^verbatim>\<open>double\<close> (binary64). An operation gives its exact result
  rounded to the nearest number of its format, ties to the even significand:
  \<open>fp_round p emin\<close> rounds to \<open>p\<close> significant bits with \<open>emin\<close> as the least
  exponent. An expression of two \<^verbatim>\<open>float\<close> operands is evaluated in \<^verbatim>\<open>float\<close> and a
  mixed one in \<^verbatim>\<open>double\<close>. A literal such as \<^verbatim>\<open>0.28\<close> is \<open>binary64 0.28\<close>, and passing it
  as an \<^verbatim>\<open>SkScalar\<close> rounds it once more, with \<open>binary32\<close>. The literals 0, 0.5, 1 and
  2, negation, the absolute value, \<open>min\<close>, \<open>max\<close> and comparisons are exact and written
  without rounding. Infinities and NaN are not modelled: the colour arithmetic works on
  channels between 0 and 1 and stays far below the largest finite number.
\<close>

definition round_half_even :: "real \<Rightarrow> int" where
  "round_half_even x =
     (let f = \<lfloor>x\<rfloor>;
          d = x - real_of_int f
      in if d < 1 / 2 then f else if 1 / 2 < d then f + 1 else if even f then f else f + 1)"

definition fp_round :: "nat \<Rightarrow> int \<Rightarrow> real \<Rightarrow> real" where
  "fp_round p emin x =
     (if x = 0 then 0
      else (let e = max \<lfloor>log 2 \<bar>x\<bar>\<rfloor> emin;
                ulp = 2 powi (e - (int p - 1))
            in real_of_int (round_half_even (x / ulp)) * ulp))"

definition binary32 :: "real \<Rightarrow> real" where
  "binary32 x = fp_round 24 (- 126) x"

definition binary64 :: "real \<Rightarrow> real" where
  "binary64 x = fp_round 53 (- 1022) x"

subsection \<open>Colour adjustment\<close>

definition Clamp :: "SkScalar \<Rightarrow> SkScalar \<Rightarrow> SkScalar \<Rightarrow> SkScalar" where
  "Clamp v lo hi = min (max v lo) hi"

definition BrightenColor :: "'f platform \<Rightarrow> HSL \<Rightarrow> SkAlpha \<Rightarrow> real \<Rightarrow> SkColor" where
  "BrightenColor env hsl alpha lightness_amount =
     (let adjusted = hsl;
          adjusted = adjusted\<lparr>hsl_l := binary64 (hsl_l adjusted + lightness_amount)\<rparr>;
          adjusted = (if hsl_l adjusted > 1.0 then adjusted\<lparr>hsl_l := 1.0\<rparr> else adjusted);
          adjusted = (if hsl_l adjusted < 0.0 then adjusted\<lparr>hsl_l := 0.0\<rparr> else adjusted)
      in HSLToSkColor env adjusted alpha)"

text \<open>
  \<open>SaturateAndBrighten_hsv\<close> is the local array \<^verbatim>\<open>color\<close> of \<^verbatim>\<open>SaturateAndBrighten\<close>,
  which the function hands to \<^verbatim>\<open>SkHSVToColor\<close>.
\<close>

fun SaturateAndBrighten_hsv :: "SkHSV \<Rightarrow> SkScalar \<Rightarrow> SkScalar \<Rightarrow> SkHSV" where
  "SaturateAndBrighten_hsv (h, s, v) saturate_amount brighten_amount =
     (h, Clamp (binary32 (s + saturate_amount)) 0.0 1.0,
         Clamp (binary32 (v + brighten_amount)) 0.0 1.0)"

definition SaturateAndBrighten ::
  "'f platform \<Rightarrow> SkHSV \<Rightarrow> SkScalar \<Rightarrow> SkScalar \<Rightarrow> SkColor" where
  "SaturateAndBrighten env hsv saturate_amount brighten_amount =
     SkHSVToColor env (SaturateAndBrighten_hsv hsv saturate_amount brighten_amount)"

text \<open>
  \<open>OutlineColor_diff\<close> is the local \<^verbatim>\<open>diff\<close> of \<^verbatim>\<open>OutlineColor\<close> when the function
  returns, \<open>OutlineColor_min_diff\<close> its local \<^verbatim>\<open>min_diff\<close>. The sum of the two
  saturations is a \<^verbatim>\<open>float\<close>, its product with \<^verbatim>\<open>1.2\<close> a \<^verbatim>\<open>double\<close> that the call of
  \<^verbatim>\<open>Clamp\<close> narrows; the difference of the two values is a \<^verbatim>\<open>float\<close>, and its halved
  absolute value is narrowed in the same way. The test adds the two values in \<^verbatim>\<open>float\<close>
  and compares the rounded sum with 1.
\<close>

fun OutlineColor_min_diff :: "SkHSV \<Rightarrow> SkHSV \<Rightarrow> SkScalar" where
  "OutlineColor_min_diff (h1, s1, v1) (h2, s2, v2) =
     Clamp (binary32 (binary64 (binary32 (s1 + s2) * binary64 1.2)))
       (binary32 (binary64 0.28)) 0.5"

fun OutlineColor_diff :: "SkHSV \<Rightarrow> SkHSV \<Rightarrow> SkScalar" where
  "OutlineColor_diff (h1, s1, v1) (h2, s2, v2) =
     (let min_diff = OutlineColor_min_diff (h1, s1, v1) (h2, s2, v2);
          diff = Clamp (binary32 (\<bar>binary32 (v1 - v2)\<bar> / 2)) min_diff 0.5;
          diff = (if binary32 (v1 + v2) > 1.0 then - diff else diff)
      in diff)"

definition OutlineColor :: "'f platform \<Rightarrow> SkHSV \<Rightarrow> SkHSV \<Rightarrow> SkColor" where
  "OutlineColor env hsv1 hsv2 =
     SaturateAndBrighten env hsv2 (binary32 (- binary64 0.2)) (OutlineColor_diff hsv1 hsv2)"

subsection \<open>Lines, boxes and images\<close>

definition DrawVertLine :: "'f canvas \<Rightarrow> int \<Rightarrow> int \<Rightarrow> int \<Rightarrow> SkPaint \<Rightarrow> 'f canvas" where
  "DrawVertLine canvas x y1 y2 paint = drawIRect canvas (x, y1, x + 1, y2 + 1) paint"

definition DrawHorizLine :: "'f canvas \<Rightarrow> int \<Rightarrow> int \<Rightarrow> int \<Rightarrow> SkPaint \<Rightarrow> 'f canvas" where
  "DrawHorizLine canvas x1 x2 y paint = drawIRect canvas (x1, y, x2 + 1, y + 1) paint"

definition DrawBox :: "'f canvas \<Rightarrow> Rect \<Rightarrow> SkPaint \<Rightarrow> 'f canvas" where
  "DrawBox canvas rect paint =
     (let right = rect_x rect + rect_width rect - 1;
          bottom = rect_y rect + rect_height rect - 1;
          canvas = DrawHorizLine canvas (rect_x rect) right (rect_y rect) paint;
          canvas = DrawVertLine canvas right (rect_y rect) bottom paint;
          canvas = DrawHorizLine canvas (rect_x rect) right bottom paint;
          canvas = DrawVertLine canvas (rect_x rect) (rect_y rect) bottom paint
      in canvas)"

definition DrawImageInt ::
  "'f canvas \<Rightarrow> resource_id \<Rightarrow> int \<Rightarrow> int \<Rightarrow> int \<Rightarrow> int \<Rightarrow> int \<Rightarrow> int \<Rightarrow> int \<Rightarrow> int \<Rightarrow> 'f canvas" where
  "DrawImageInt canvas img src_x src_y src_w src_h dest_x dest_y dest_w dest_h =
     canvas @ [CanvasDrawImageInt img src_x src_y src_w src_h dest_x dest_y dest_w dest_h True]"

definition DrawTiledImage ::
  "'f canvas \<Rightarrow> resource_id \<Rightarrow> int \<Rightarrow> int \<Rightarrow> 'f \<Rightarrow> 'f \<Rightarrow> int \<Rightarrow> int \<Rightarrow> int \<Rightarrow> int \<Rightarrow> 'f canvas" where
  "DrawTiledImage canvas img src_x src_y tile_scale_x tile_scale_y dest_x dest_y w h =
     canvas @ [CanvasTileImageInt img src_x src_y tile_scale_x tile_scale_y dest_x dest_y w h]"

subsection \<open>Part sizes and system colours\<close>

fun GetPartSize :: "Part \<Rightarrow> State \<Rightarrow> ExtraParams \<Rightarrow> Size" where
  "GetPartSize kScrollbarDownArrow state extra = Size_of kScrollbarWidth kButtonLength"
| "GetPartSize kScrollbarUpArrow state extra = Size_of kScrollbarWidth kButtonLength"
| "GetPartSize kScrollbarLeftArrow state extra = Size_of kButtonLength kScrollbarWidth"
| "GetPartSize kScrollbarRightArrow state extra = Size_of kButtonLength kScrollbarWidth"
| "GetPartSize kCheckbox state extra = Size_of kCheckboxAndRadioWidth kCheckboxAndRadioHeight"
| "GetPartSize kRadio state extra = Size_of kCheckboxAndRadioWidth kCheckboxAndRadioHeight"
| "GetPartSize kSliderThumb state extra = Size_of kSliderThumbWidth kSliderThumbHeight"
| "GetPartSize kInnerSpinButton state extra = Size_of kScrollbarWidth 0"
| "GetPartSize kPushButton state extra = Size_empty"
| "GetPartSize kTextField state extra = Size_empty"
| "GetPartSize kMenuList state extra = Size_empty"
| "GetPartSize kSliderTrack state extra = Size_empty"
| "GetPartSize kProgressBar state extra = Size_empty"

text \<open>
  \<^verbatim>\<open>GetSystemColor\<close> logs \<^verbatim>\<open>NOTIMPLEMENTED()\<close> and returns black, whatever identifier it
  is given; the type of the identifiers is left open.
\<close>

definition GetSystemColor :: "'c \<Rightarrow> SkColor" where
  "GetSystemColor color_id = SK_ColorBLACK"

subsection \<open>Scrollbar arrow buttons\<close>

definition PaintArrowButton :: "'f platform \<Rightarrow> 'f canvas \<Rightarrow> Rect \<Rightarrow> Part \<Rightarrow> State \<Rightarrow> 'f canvas" where
  "PaintArrowButton env canvas rect direction state =
     (let paint = SkPaint_new;
          (widthMiddle, lengthMiddle) =
            (if direction = kScrollbarUpArrow \<or> direction = kScrollbarDownArrow
             then (rect_width rect sdiv 2 + 1, rect_height rect sdiv 2 + 1)
             else (rect_height rect sdiv 2 + 1, rect_width rect sdiv 2 + 1));
          trackHSV = SkColorToHSV env kTrackColor;
          buttonColor = SaturateAndBrighten env trackHSV 0 (binary32 (binary64 0.2));
          backgroundColor = buttonColor;
          buttonColor =
            (if state = kPressed
             then SaturateAndBrighten env (SkColorToHSV env buttonColor) 0
                    (binary32 (- binary64 0.1))
             else if state = kHovered
             then SaturateAndBrighten env (SkColorToHSV env buttonColor) 0
                    (binary32 (binary64 0.05))
             else buttonColor);
          skrect = (rect_x rect, rect_y rect, rect_x rect + rect_width rect,
                    rect_y rect + rect_height rect);
          paint = paint\<lparr>paint_color := backgroundColor\<rparr>;
          canvas = drawIRect canvas skrect paint;
          outline =
            (case direction of
               kScrollbarUpArrow \<Rightarrow>
                 [moveTo (real_of_int (rect_x rect) + 0.5)
                         (real_of_int (rect_y rect + rect_height rect) + 0.5),
                  rLineTo 0 (real_of_int (- (rect_height rect - 2))),
                  rLineTo 2 (- 2),
                  rLineTo (real_of_int (rect_width rect - 5)) 0,
                  rLineTo 2 2,
                  rLineTo 0 (real_of_int (rect_height rect - 2))]
             | kScrollbarDownArrow \<Rightarrow>
                 [moveTo (real_of_int (rect_x rect) + 0.5) (real_of_int (rect_y rect) - 0.5),
                  rLineTo 0 (real_of_int (rect_height rect - 2)),
                  rLineTo 2 2,
                  rLineTo (real_of_int (rect_width rect - 5)) 0,
                  rLineTo 2 (- 2),
                  rLineTo 0 (real_of_int (- (rect_height rect - 2)))]
             | kScrollbarRightArrow \<Rightarrow>
                 [moveTo (real_of_int (rect_x rect) - 0.5) (real_of_int (rect_y rect) + 0.5),
                  rLineTo (real_of_int (rect_width rect - 2)) 0,
                  rLineTo 2 2,
                  rLineTo 0 (real_of_int (rect_height rect - 5)),
                  rLineTo (- 2) 2,
                  rLineTo (real_of_int (- (rect_width rect - 2))) 0]
             | kScrollbarLeftArrow \<Rightarrow>
                 [moveTo (real_of_int (rect_x rect + rect_width rect) + 0.5)
                         (real_of_int (rect_y rect) + 0.5),
                  rLineTo (real_of_int (- (rect_width rect - 2))) 0,
                  rLineTo (- 2) 2,
                  rLineTo 0 (real_of_int (rect_height rect - 5)),
                  rLineTo 2 2,
                  rLineTo (real_of_int (rect_width rect - 2)) 0]
             | _ \<Rightarrow> []);
          outline = outline @ [close_path];
          paint = paint\<lparr>paint_style := kFill_Style\<rparr>;
          paint = paint\<lparr>paint_color := buttonColor\<rparr>;
          canvas = drawPath canvas outline paint;
          paint = paint\<lparr>paint_anti_alias := True\<rparr>;
          paint = paint\<lparr>paint_style := kStroke_Style\<rparr>;
          thumbHSV = SkColorToHSV env kThumbInactiveColor;
          paint = paint\<lparr>paint_color := OutlineColor env trackHSV thumbHSV\<rparr>;
          canvas = drawPath canvas outline paint;
          paint = (if state \<noteq> kDisabled then paint\<lparr>paint_color := SK_ColorBLACK\<rparr> else paint);
          paint = paint\<lparr>paint_anti_alias := False\<rparr>;
          paint = paint\<lparr>paint_style := kFill_Style\<rparr>;
          path =
            (case direction of
               kScrollbarUpArrow \<Rightarrow>
                 [moveTo (real_of_int (rect_x rect + widthMiddle - 4))
                         (real_of_int (rect_y rect + lengthMiddle + 2)),
                  rLineTo 7 0,
                  rLineTo (- 4) (- 4)]
             | kScrollbarDownArrow \<Rightarrow>
                 [moveTo (real_of_int (rect_x rect + widthMiddle - 4))
                         (real_of_int (rect_y rect + lengthMiddle - 3)),
                  rLineTo 7 0,
                  rLineTo (- 4) 4]
             | kScrollbarRightArrow \<Rightarrow>
                 [moveTo (real_of_int (rect_x rect + lengthMiddle - 3))
                         (real_of_int (rect_y rect + widthMiddle - 4)),
                  rLineTo 0 7,
                  rLineTo 4 (- 4)]
             | kScrollbarLeftArrow \<Rightarrow>
                 [moveTo (real_of_int (rect_x rect + lengthMiddle + 1))
                         (real_of_int (rect_y rect + widthMiddle - 5)),
                  rLineTo 0 9,
                  rLineTo (- 4) (- 4)]
             | _ \<Rightarrow> []);
          path = path @ [close_path]
      in drawPath canvas path paint)"

subsection \<open>Checkbox and radio button\<close>

definition PaintCheckbox ::
  "'f platform \<Rightarrow> 'f canvas \<Rightarrow> State \<Rightarrow> Rect \<Rightarrow> ButtonExtraParams \<Rightarrow> 'f canvas" where
  "PaintCheckbox env canvas state rect button =
     (let img =
            (if indeterminate button
             then (if state = kDisabled then IDR_CHECKBOX_DISABLED_INDETERMINATE
                   else IDR_CHECKBOX_INDETERMINATE)
             else if checked button
             then (if state = kDisabled then IDR_CHECKBOX_DISABLED_ON else IDR_CHECKBOX_ON)
             else (if state = kDisabled then IDR_CHECKBOX_DISABLED_OFF else IDR_CHECKBOX_OFF));
          bounds = Center env rect (Size_of (image_width env img) (image_height env img))
      in DrawImageInt canvas img 0 0 (image_width env img) (image_height env img)
           (rect_x bounds) (rect_y bounds) (rect_width bounds) (rect_height bounds))"

definition PaintRadio ::
  "'f platform \<Rightarrow> 'f canvas \<Rightarrow> State \<Rightarrow> Rect \<Rightarrow> ButtonExtraParams \<Rightarrow> 'f canvas" where
  "PaintRadio env canvas state rect button =
     (let img =
            (if state = kDisabled
             then (if checked button then IDR_RADIO_DISABLED_ON else IDR_RADIO_DISABLED_OFF)
             else (if checked button then IDR_RADIO_ON else IDR_RADIO_OFF));
          bounds = Center env rect (Size_of (image_width env img) (image_height env img))
      in DrawImageInt canvas img 0 0 (image_width env img) (image_height env img)
           (rect_x bounds) (rect_y bounds) (rect_width bounds) (rect_height bounds))"

subsection \<open>Push button and menu list\<close>

definition PaintButton ::
  "'f platform \<Rightarrow> 'f canvas \<Rightarrow> State \<Rightarrow> Rect \<Rightarrow> ButtonExtraParams \<Rightarrow> 'f canvas" where
  "PaintButton env canvas state rect button =
     (let paint = SkPaint_new;
          kRight = right rect;
          kBottom = bottom rect;
          base_color = button_background_color button;
          base_hsl = SkColorToHSL env base_color;
          light_color = BrightenColor env base_hsl (SkColorGetA base_color) (binary64 0.105)
      in if rect_width rect < 5 \<or> rect_height rect < 5
         then
           (let paint = paint\<lparr>paint_color := base_color\<rparr>;
                skrect = (real_of_int (rect_x rect), real_of_int (rect_y rect),
                          real_of_int kRight, real_of_int kBottom)
            in drawRect canvas skrect paint)
         else
           (let (canvas, paint) =
                  (if button_has_border button
                   then
                     (let kBorderAlpha = (if state = kHovered then 0x80 else 0x55);
                          paint = setARGB kBorderAlpha 0 0 0 paint;
                          canvas = drawLine canvas (real_of_int (rect_x rect + 1))
                                     (real_of_int (rect_y rect)) (real_of_int (kRight - 1))
                                     (real_of_int (rect_y rect)) paint;
                          canvas = drawLine canvas (real_of_int (kRight - 1))
                                     (real_of_int (rect_y rect + 1)) (real_of_int (kRight - 1))
                                     (real_of_int (kBottom - 1)) paint;
                          canvas = drawLine canvas (real_of_int (rect_x rect + 1))
                                     (real_of_int (kBottom - 1)) (real_of_int (kRight - 1))
                                     (real_of_int (kBottom - 1)) paint;
                          canvas = drawLine canvas (real_of_int (rect_x rect))
                                     (real_of_int (rect_y rect + 1)) (real_of_int (rect_x rect))
                                     (real_of_int (kBottom - 1)) paint
                      in (canvas, paint))
                   else (canvas, paint));
                paint = paint\<lparr>paint_color := SK_ColorBLACK\<rparr>;
                kLightEnd = (if state = kPressed then 1 else 0 :: nat);
                kDarkEnd = (if kLightEnd = 0 then 1 else 0 :: nat);
                gradient_bounds = [(0, 0), (0, 0)];
                gradient_bounds = gradient_bounds
                  [kLightEnd := (real_of_int (rect_x rect), real_of_int (rect_y rect))];
                gradient_bounds = gradient_bounds
                  [kDarkEnd := (real_of_int (rect_x rect), real_of_int (kBottom - 1))];
                colors = [light_color, base_color];
                canvas = canvas @ [CreateLinear gradient_bounds colors];
                shader = LinearGradient gradient_bounds colors;
                paint = paint\<lparr>paint_style := kFill_Style\<rparr>;
                paint = paint\<lparr>paint_shader := Some shader\<rparr>;
                skrect =
                  (if button_has_border button
                   then (real_of_int (rect_x rect + 1), real_of_int (rect_y rect + 1),
                         real_of_int (kRight - 1), real_of_int (kBottom - 1))
                   else (real_of_int (rect_x rect), real_of_int (rect_y rect),
                         real_of_int kRight, real_of_int kBottom));
                canvas = drawRect canvas skrect paint;
                paint = paint\<lparr>paint_shader := None\<rparr>
            in if button_has_border button
               then
                 (let paint = paint\<lparr>paint_color :=
                                BrightenColor env base_hsl (SkColorGetA base_color)
                                  (- binary64 0.0588)\<rparr>;
                      canvas = drawPoint canvas (real_of_int (rect_x rect + 1))
                                 (real_of_int (rect_y rect + 1)) paint;
                      canvas = drawPoint canvas (real_of_int (kRight - 2))
                                 (real_of_int (rect_y rect + 1)) paint;
                      canvas = drawPoint canvas (real_of_int (rect_x rect + 1))
                                 (real_of_int (kBottom - 2)) paint
                  in drawPoint canvas (real_of_int (kRight - 2)) (real_of_int (kBottom - 2)) paint)
               else canvas))"

definition PaintMenuList ::
  "'f platform \<Rightarrow> 'f canvas \<Rightarrow> State \<Rightarrow> Rect \<Rightarrow> MenuListExtraParams \<Rightarrow> 'f canvas" where
  "PaintMenuList env canvas state rect menu_list =
     (let canvas =
            (if \<not> has_border_radius menu_list
             then
               (let button = \<lparr>checked = False, indeterminate = False,
                               button_has_border = False, button_background_color = 0\<rparr>;
                    button = button\<lparr>button_background_color := menu_background_color menu_list\<rparr>;
                    button = button\<lparr>button_has_border := menu_has_border menu_list\<rparr>
                in PaintButton env canvas state rect button)
             else canvas);
          paint = SkPaint_new;
          paint = paint\<lparr>paint_color := SK_ColorBLACK\<rparr>;
          paint = paint\<lparr>paint_anti_alias := True\<rparr>;
          paint = paint\<lparr>paint_style := kFill_Style\<rparr>;
          path = [moveTo (real_of_int (arrow_x menu_list)) (real_of_int (arrow_y menu_list - 3)),
                  rLineTo 6 0,
                  rLineTo (- 3) 6,
                  close_path]
      in drawPath canvas path paint)"

subsection \<open>Text field\<close>

definition PaintTextField ::
  "'f platform \<Rightarrow> 'f canvas \<Rightarrow> State \<Rightarrow> Rect \<Rightarrow> TextFieldExtraParams \<Rightarrow> 'f canvas" where
  "PaintTextField env canvas state rect text =
     (let bounds = (real_of_int (rect_x rect), real_of_int (rect_y rect),
                    real_of_int (right rect - 1), real_of_int (bottom rect - 1));
          fill_paint = SkPaint_new;
          fill_paint = fill_paint\<lparr>paint_style := kFill_Style\<rparr>;
          fill_paint = fill_paint\<lparr>paint_color := text_background_color text\<rparr>;
          canvas = drawRect canvas bounds fill_paint
      in if is_text_area text
         then
           (let fill_paint = fill_paint\<lparr>paint_style := kStroke_Style\<rparr>;
                fill_paint = fill_paint\<lparr>paint_color := SK_ColorBLACK\<rparr>
            in drawRect canvas bounds fill_paint)
         else
           (let kLightColor = (if is_listbox text then SkColorSetRGB 0x80 0x80 0x80
                               else SkColorSetRGB 0xee 0xee 0xee);
                kDarkColor = (if is_listbox text then SkColorSetRGB 0x2c 0x2c 0x2c
                              else SkColorSetRGB 0x9a 0x9a 0x9a);
                kBorderWidth = (if is_listbox text then 1 else 2 :: int);
                dark_paint = SkPaint_new;
                dark_paint = dark_paint\<lparr>paint_anti_alias := True\<rparr>;
                dark_paint = dark_paint\<lparr>paint_style := kFill_Style\<rparr>;
                dark_paint = dark_paint\<lparr>paint_color := kDarkColor\<rparr>;
                light_paint = SkPaint_new;
                light_paint = light_paint\<lparr>paint_anti_alias := True\<rparr>;
                light_paint = light_paint\<lparr>paint_style := kFill_Style\<rparr>;
                light_paint = light_paint\<lparr>paint_color := kLightColor\<rparr>;
                left = rect_x rect;
                top = rect_y rect;
                right = right rect;
                bottom = bottom rect;
                path = [];
                path = path @ [moveTo (real_of_int left) (real_of_int top)];
                path = path @ [lineTo (real_of_int (left + kBorderWidth))
                                      (real_of_int (top + kBorderWidth))];
                path = path @ [lineTo (real_of_int (right - kBorderWidth))
                                      (real_of_int (top + kBorderWidth))];
                path = path @ [lineTo (real_of_int right) (real_of_int top)];
                canvas = drawPath canvas path dark_paint;
                path = [];
                path = path @ [moveTo (real_of_int (left + kBorderWidth))
                                      (real_of_int (bottom - kBorderWidth))];
                path = path @ [lineTo (real_of_int left) (real_of_int bottom)];
                path = path @ [lineTo (real_of_int right) (real_of_int bottom)];
                path = path @ [lineTo (real_of_int (right - kBorderWidth))
                                      (real_of_int (bottom - kBorderWidth))];
                canvas = drawPath canvas path light_paint;
                path = [];
                path = path @ [moveTo (real_of_int left) (real_of_int top)];
                path = path @ [lineTo (real_of_int left) (real_of_int bottom)];
                path = path @ [lineTo (real_of_int (left + kBorderWidth))
                                      (real_of_int (bottom - kBorderWidth))];
                path = path @ [lineTo (real_of_int (left + kBorderWidth))
                                      (real_of_int (top + kBorderWidth))];
                canvas = drawPath canvas path dark_paint;
                path = [];
                path = path @ [moveTo (real_of_int (right - kBorderWidth))
                                      (real_of_int (top + kBorderWidth))];
                path = path @ [lineTo (real_of_int (right - kBorderWidth)) (real_of_int bottom)];
                path = path @ [lineTo (real_of_int right) (real_of_int bottom)];
                path = path @ [lineTo (real_of_int right) (real_of_int top)]
            in drawPath canvas path light_paint))"

subsection \<open>Slider\<close>

definition PaintSliderTrack ::
  "'f platform \<Rightarrow> 'f canvas \<Rightarrow> State \<Rightarrow> Rect \<Rightarrow> SliderExtraParams \<Rightarrow> 'f canvas" where
  "PaintSliderTrack env canvas state rect slider =
     (let kMidX = rect_x rect + rect_width rect sdiv 2;
          kMidY = rect_y rect + rect_height rect sdiv 2;
          paint = SkPaint_new;
          paint = paint\<lparr>paint_color := kSliderTrackBackgroundColor\<rparr>;
          skrect =
            (if vertical slider
             then (real_of_int (max (rect_x rect) (kMidX - 2)),
                   real_of_int (rect_y rect),
                   real_of_int (min (right rect) (kMidX + 2)),
                   real_of_int (bottom rect))
             else (real_of_int (rect_x rect),
                   real_of_int (max (rect_y rect) (kMidY - 2)),
                   real_of_int (right rect),
                   real_of_int (min (bottom rect) (kMidY + 2))))
      in drawRect canvas skrect paint)"

definition PaintSliderThumb ::
  "'f platform \<Rightarrow> 'f canvas \<Rightarrow> State \<Rightarrow> Rect \<Rightarrow> SliderExtraParams \<Rightarrow> 'f canvas" where
  "PaintSliderThumb env canvas state rect slider =
     (let hovered = (state = kHovered \<or> in_drag slider);
          kMidX = rect_x rect + rect_width rect sdiv 2;
          kMidY = rect_y rect + rect_height rect sdiv 2;
          paint = SkPaint_new;
          paint = paint\<lparr>paint_color := (if hovered then SK_ColorWHITE else kSliderThumbLightGrey)\<rparr>;
          skrect =
            (if vertical slider
             then (rect_x rect, rect_y rect, kMidX + 1, bottom rect)
             else (rect_x rect, rect_y rect, right rect, kMidY + 1));
          canvas = drawIRect canvas skrect paint;
          paint = paint\<lparr>paint_color :=
                    (if hovered then kSliderThumbLightGrey else kSliderThumbDarkGrey)\<rparr>;
          skrect =
            (if vertical slider
             then (kMidX + 1, rect_y rect, right rect, bottom rect)
             else (rect_x rect, kMidY + 1, right rect, bottom rect));
          canvas = drawIRect canvas skrect paint;
          paint = paint\<lparr>paint_color := kSliderThumbBorderDarkGrey\<rparr>;
          canvas = DrawBox canvas rect paint
      in if rect_height rect > 10 \<and> rect_width rect > 10
         then
           (let canvas = DrawHorizLine canvas (kMidX - 2) (kMidX + 2) kMidY paint;
                canvas = DrawHorizLine canvas (kMidX - 2) (kMidX + 2) (kMidY - 3) paint
            in DrawHorizLine canvas (kMidX - 2) (kMidX + 2) (kMidY + 3) paint)
         else canvas)"

subsection \<open>Inner spin button\<close>

text \<open>
  \<open>InnerSpinButton_states\<close> is the pair of locals \<^verbatim>\<open>north_state\<close> and \<^verbatim>\<open>south_state\<close> of
  \<^verbatim>\<open>PaintInnerSpinButton\<close>, as they stand when the two arrow buttons are painted.
\<close>

definition InnerSpinButton_states :: "State \<Rightarrow> InnerSpinButtonExtraParams \<Rightarrow> State \<times> State" where
  "InnerSpinButton_states state spin_button =
     (let state = (if read_only spin_button then kDisabled else state);
          north_state = state;
          south_state = state
      in if spin_up spin_button
         then (north_state, if south_state \<noteq> kDisabled then kNormal else kDisabled)
         else (if north_state \<noteq> kDisabled then kNormal else kDisabled, south_state))"

definition PaintInnerSpinButton ::
  "'f platform \<Rightarrow> 'f canvas \<Rightarrow> State \<Rightarrow> Rect \<Rightarrow> InnerSpinButtonExtraParams \<Rightarrow> 'f canvas" where
  "PaintInnerSpinButton env canvas state rect spin_button =
     (let (north_state, south_state) = InnerSpinButton_states state spin_button;
          half = rect;
          half = set_height (rect_height rect sdiv 2) half;
          canvas = PaintArrowButton env canvas half kScrollbarUpArrow north_state;
          half = set_y (rect_y rect + rect_height rect sdiv 2) half
      in PaintArrowButton env canvas half kScrollbarDownArrow south_state)"

subsection \<open>Progress bar\<close>

definition PaintProgressBar ::
  "'f platform \<Rightarrow> 'f canvas \<Rightarrow> State \<Rightarrow> Rect \<Rightarrow> ProgressBarExtraParams \<Rightarrow> 'f canvas" where
  "PaintProgressBar env canvas state rect progress_bar =
     (let bar_image = IDR_PROGRESS_BAR;
          left_border_image = IDR_PROGRESS_BORDER_LEFT;
          right_border_image = IDR_PROGRESS_BORDER_RIGHT;
          tile_scale = float_div env (rect_height rect) (image_height env bar_image);
          new_tile_width = float_mul_to_int env (image_width env bar_image) tile_scale;
          tile_scale_x = float_div env new_tile_width (image_width env bar_image);
          canvas = DrawTiledImage canvas bar_image 0 0 tile_scale_x tile_scale
                     (rect_x rect) (rect_y rect) (rect_width rect) (rect_height rect);
          canvas =
            (if value_rect_width progress_bar \<noteq> 0
             then
               (let value_image = IDR_PROGRESS_VALUE;
                    new_tile_width = float_mul_to_int env (image_width env value_image) tile_scale;
                    tile_scale_x = float_div env new_tile_width (image_width env value_image)
                in DrawTiledImage canvas value_image 0 0 tile_scale_x tile_scale
                     (value_rect_x progress_bar) (value_rect_y progress_bar)
                     (value_rect_width progress_bar) (value_rect_height progress_bar))
             else canvas);
          dest_left_border_width =
            float_mul_to_int env (image_width env left_border_image) tile_scale;
          canvas = DrawImageInt canvas left_border_image 0 0
                     (image_width env left_border_image) (image_height env left_border_image)
                     (rect_x rect) (rect_y rect) dest_left_border_width (rect_height rect);
          dest_right_border_width =
            float_mul_to_int env (image_width env right_border_image) tile_scale;
          dest_x = right rect - dest_right_border_width
      in DrawImageInt canvas right_border_image 0 0
           (image_width env right_border_image) (image_height env right_border_image)
           dest_x (rect_y rect) dest_right_border_width (rect_height rect))"

subsection \<open>The dispatch\<close>

fun Paint :: "'f platform \<Rightarrow> 'f canvas \<Rightarrow> Part \<Rightarrow> State \<Rightarrow> Rect \<Rightarrow> ExtraParams \<Rightarrow> 'f canvas" where
  "Paint env canvas kScrollbarDownArrow state rect extra =
     PaintArrowButton env canvas rect kScrollbarDownArrow state"
| "Paint env canvas kScrollbarUpArrow state rect extra =
     PaintArrowButton env canvas rect kScrollbarUpArrow state"
| "Paint env canvas kScrollbarLeftArrow state rect extra =
     PaintArrowButton env canvas rect kScrollbarLeftArrow state"
| "Paint env canvas kScrollbarRightArrow state rect extra =
     PaintArrowButton env canvas rect kScrollbarRightArrow state"
| "Paint env canvas kCheckbox state rect extra =
     PaintCheckbox env canvas state rect (button_params extra)"
| "Paint env canvas kRadio state rect extra =
     PaintRadio env canvas state rect (button_params extra)"
| "Paint env canvas kPushButton state rect extra =
     PaintButton env canvas state rect (button_params extra)"
| "Paint env canvas kTextField state rect extra =
     PaintTextField env canvas state rect (text_field_params extra)"
| "Paint env canvas kMenuList state rect extra =
     PaintMenuList env canvas state rect (menu_list_params extra)"
| "Paint env canvas kSliderTrack state rect extra =
     PaintSliderTrack env canvas state rect (slider_params extra)"
| "Paint env canvas kSliderThumb state rect extra =
     PaintSliderThumb env canvas state rect (slider_params extra)"
| "Paint env canvas kInnerSpinButton state rect extra =
     PaintInnerSpinButton env canvas state rect (inner_spin_params extra)"
| "Paint env canvas kProgressBar state rect extra =
     PaintProgressBar env canvas state rect (progress_bar_params extra)"

section \<open>Vocabulary of the statements\<close>

subsection \<open>The outline colour before its conversion\<close>

text \<open>
  \<open>OutlineColor_hsv\<close> is the triple that \<^verbatim>\<open>OutlineColor\<close> hands, through
  \<^verbatim>\<open>SaturateAndBrighten\<close>, to \<^verbatim>\<open>SkHSVToColor\<close>; \<open>hsv_val\<close> reads the value channel
  \<^verbatim>\<open>hsv[2]\<close> of a triple.
\<close>

definition OutlineColor_hsv :: "SkHSV \<Rightarrow> SkHSV \<Rightarrow> SkHSV" where
  "OutlineColor_hsv hsv1 hsv2 =
     SaturateAndBrighten_hsv hsv2 (binary32 (- binary64 0.2)) (OutlineColor_diff hsv1 hsv2)"

fun hsv_val :: "SkHSV \<Rightarrow> SkScalar" where
  "hsv_val (h, s, v) = v"

subsection \<open>The outline colour in the words of the spec\<close>

text \<open>
  The spec writes \<open>clamp(x, lo, hi)\<close> for the value of \<open>x\<close> cut to the interval from
  \<open>lo\<close> to \<open>hi\<close>, and gives \<open>minDiff\<close> and \<open>diff\<close> by formulas; \<open>diff\<close> is negated
  when the two values add up to more than one. \<open>spec_minDiff\<close> and \<open>spec_diff\<close> read
  the formulas as they are written, over the real numbers.
\<close>

definition spec_clamp :: "real \<Rightarrow> real \<Rightarrow> real \<Rightarrow> real" where
  "spec_clamp v lo hi = (if v < lo then lo else if hi < v then hi else v)"

fun spec_minDiff :: "SkHSV \<Rightarrow> SkHSV \<Rightarrow> real" where
  "spec_minDiff (hue_bg, sat_bg, val_bg) (hue_fg, sat_fg, val_fg) =
     spec_clamp ((sat_bg + sat_fg) * 1.2) 0.28 0.5"

fun spec_diff :: "SkHSV \<Rightarrow> SkHSV \<Rightarrow> real" where
  "spec_diff (hue_bg, sat_bg, val_bg) (hue_fg, sat_fg, val_fg) =
     (if val_bg + val_fg > 1.0
      then - spec_clamp (\<bar>val_bg - val_fg\<bar> / 2)
               (spec_minDiff (hue_bg, sat_bg, val_bg) (hue_fg, sat_fg, val_fg)) 0.5
      else spec_clamp (\<bar>val_bg - val_fg\<bar> / 2)
               (spec_minDiff (hue_bg, sat_bg, val_bg) (hue_fg, sat_fg, val_fg)) 0.5)"

text \<open>
  \<open>spec_minDiff_rounded\<close> and \<open>spec_diff_rounded\<close> read the same formulas with every
  sum, difference, product and constant as an \<^verbatim>\<open>SkScalar\<close>: the operations round as the
  section on floating-point arithmetic describes.
\<close>

fun spec_minDiff_rounded :: "SkHSV \<Rightarrow> SkHSV \<Rightarrow> real" where
  "spec_minDiff_rounded (hue_bg, sat_bg, val_bg) (hue_fg, sat_fg, val_fg) =
     spec_clamp (binary32 (binary64 (binary32 (sat_bg + sat_fg) * binary64 1.2)))
       (binary32 (binary64 0.28)) 0.5"

fun spec_diff_rounded :: "SkHSV \<Rightarrow> SkHSV \<Rightarrow> real" where
  "spec_diff_rounded (hue_bg, sat_bg, val_bg) (hue_fg, sat_fg, val_fg) =
     (if binary32 (val_bg + val_fg) > 1.0
      then - spec_clamp (binary32 (\<bar>binary32 (val_bg - val_fg)\<bar> / 2))
               (spec_minDiff_rounded (hue_bg, sat_bg, val_bg) (hue_fg, sat_fg, val_fg)) 0.5
      else spec_clamp (binary32 (\<bar>binary32 (val_bg - val_fg)\<bar> / 2))
               (spec_minDiff_rounded (hue_bg, sat_bg, val_bg) (hue_fg, sat_fg, val_fg)) 0.5)"

subsection \<open>The scale rule of the progress bar in the words of the spec\<close>

text \<open>
  The uniform scale is the height of the destination rectangle over the height of the
  background bar image; the horizontal tile scale of an image is derived from the tile
  width that this scale gives, and so is the width of a border cap.
\<close>

definition spec_tile_scale :: "'f platform \<Rightarrow> Rect \<Rightarrow> 'f" where
  "spec_tile_scale env rect =
     float_div env (rect_height rect) (image_height env IDR_PROGRESS_BAR)"

definition spec_tile_scale_x :: "'f platform \<Rightarrow> Rect \<Rightarrow> resource_id \<Rightarrow> 'f" where
  "spec_tile_scale_x env rect img =
     float_div env (float_mul_to_int env (image_width env img) (spec_tile_scale env rect))
       (image_width env img)"

definition spec_cap_width :: "'f platform \<Rightarrow> Rect \<Rightarrow> resource_id \<Rightarrow> int" where
  "spec_cap_width env rect img =
     float_mul_to_int env (image_width env img) (spec_tile_scale env rect)"

subsection \<open>The part groups of the spec\<close>

text \<open>
  The spec gives \<^verbatim>\<open>GetPartSize\<close> two groups of parts: those with a fixed intrinsic size
  and those with no default size.
\<close>

definition spec_fixed_size_parts :: "Part list" where
  "spec_fixed_size_parts =
     [kScrollbarDownArrow, kScrollbarUpArrow, kScrollbarLeftArrow, kScrollbarRightArrow,
      kCheckbox, kRadio, kSliderThumb]"

definition spec_no_default_size_parts :: "Part list" where
  "spec_no_default_size_parts =
     [kPushButton, kTextField, kMenuList, kSliderTrack, kProgressBar]"

subsection \<open>Concrete inputs\<close>

text \<open>
  A platform on which the routines can be evaluated: stub colour conversions (every HSV
  triple converts to white), images of 16 by 16 pixels, \<^verbatim>\<open>float\<close> as a real number
  with truncation by \<open>floor\<close>.
\<close>

definition stub_platform :: "real platform" where
  "stub_platform =
     \<lparr>SkColorToHSV = (\<lambda>c. (0, 0, 0)),
      SkHSVToColor = (\<lambda>hsv. SK_ColorWHITE),
      SkColorToHSL = (\<lambda>c. \<lparr>hsl_h = 0, hsl_s = 0, hsl_l = 0\<rparr>),
      HSLToSkColor = (\<lambda>hsl alpha. SK_ColorBLACK),
      image_width = (\<lambda>img. 16),
      image_height = (\<lambda>img. 16),
      Center = (\<lambda>r s. r),
      float_div = (\<lambda>a b. real_of_int a / real_of_int b),
      float_mul_to_int = (\<lambda>a s. \<lfloor>real_of_int a * s\<rfloor>)\<rparr>"

definition sample_extra :: ExtraParams where
  "sample_extra =
     \<lparr>button_params =
        \<lparr>checked = False, indeterminate = False, button_has_border = True,
         button_background_color = 0xFFDDDDDD\<rparr>,
      text_field_params =
        \<lparr>is_text_area = False, is_listbox = False, text_background_color = 0xFFFFFFFF\<rparr>,
      menu_list_params =
        \<lparr>menu_has_border = False, has_border_radius = False, arrow_x = 0, arrow_y = 0,
         menu_background_color = 0\<rparr>,
      slider_params = \<lparr>vertical = False, in_drag = False\<rparr>,
      inner_spin_params = \<lparr>spin_up = True, read_only = False\<rparr>,
      progress_bar_params =
        \<lparr>value_rect_x = 0, value_rect_y = 0, value_rect_width = 0, value_rect_height = 0\<rparr>\<rparr>"

definition Rect_of :: "int \<Rightarrow> int \<Rightarrow> int \<Rightarrow> int \<Rightarrow> Rect" where
  "Rect_of x y w h = \<lparr>rect_x = x, rect_y = y, rect_width = w, rect_height = h\<rparr>"

section \<open>Properties\<close>

subsection \<open>Rounding\<close>

lemma floor_log2_eq:
  assumes "2 powi e \<le> \<bar>x\<bar>" and "\<bar>x\<bar> < 2 powi (e + 1)"
  shows "\<lfloor>log 2 \<bar>x\<bar>\<rfloor> = e"
proof -
  have "(0::real) < 2 powi e"
    by simp
  then have pos: "0 < \<bar>x\<bar>"
    using assms(1) by linarith
  have p1: "(2::real) powr real_of_int e = 2 powi e"
    by (simp add: powr_real_of_int')
  have p2: "(2::real) powr (real_of_int e + 1) = 2 powi (e + 1)"
    using powr_real_of_int' [of 2 "e + 1"] by simp
  have "real_of_int e \<le> log 2 \<bar>x\<bar>"
    using assms(1) pos p1 by (simp add: le_log_iff)
  moreover have "log 2 \<bar>x\<bar> < real_of_int e + 1"
    using assms(2) pos p2 by (simp add: log_less_iff)
  ultimately show ?thesis
    by (rule floor_unique)
qed

lemma fp_round_eval:
  assumes "2 powi e \<le> \<bar>x\<bar>" and "\<bar>x\<bar> < 2 powi (e + 1)" and "emin \<le> e"
  shows "fp_round p emin x =
         real_of_int (round_half_even (x / 2 powi (e - (int p - 1)))) * 2 powi (e - (int p - 1))"
proof -
  have "(0::real) < 2 powi e"
    by simp
  then have "0 < \<bar>x\<bar>"
    using assms(1) by linarith
  then have "x \<noteq> 0"
    by simp
  then show ?thesis
    using floor_log2_eq [OF assms(1,2)] assms(3) by (simp add: fp_round_def Let_def max_def)
qed

lemma fp_round_zero: "fp_round p emin 0 = 0"
  by (simp add: fp_round_def)

text \<open>
  For a number whose magnitude lies between \<open>1 / 2 ^ m\<close> and twice that, rounding keeps
  \<open>p\<close> bits after scaling by \<open>2 ^ (m + p - 1)\<close>.
\<close>

lemma fp_round_eval_nat:
  assumes "1 / 2 ^ m \<le> \<bar>x\<bar>" and "\<bar>x\<bar> < 2 / 2 ^ m" and "emin \<le> - int m" and "0 < p"
  shows "fp_round p emin x =
         real_of_int (round_half_even (x * 2 ^ (m + p - 1))) / 2 ^ (m + p - 1)"
proof -
  have a: "(2::real) powi (- int m) = 1 / 2 ^ m"
    by (simp add: power_int_minus field_simps)
  have b: "(2::real) powi (- int m + 1) = 2 / 2 ^ m"
    using power_int_add [of "2::real" "- int m" 1] a by simp
  have c: "- int m - (int p - 1) = - int (m + p - 1)"
    using assms(4) by simp
  have d: "(2::real) powi (- int (m + p - 1)) = 1 / 2 ^ (m + p - 1)"
    by (simp only: power_int_minus power_int_of_nat inverse_eq_divide)
  show ?thesis
    using fp_round_eval [of "- int m" x emin p] assms(1,2,3)
    by (simp only: a b c d) simp
qed

text \<open>The rules that evaluate a rounding at a number between 1 / 8 and 2.\<close>

lemmas fp_eval =
  binary32_def binary64_def fp_round_zero round_half_even_def Let_def
  fp_round_eval_nat [where m = 0] fp_round_eval_nat [where m = 1]
  fp_round_eval_nat [where m = 2] fp_round_eval_nat [where m = 3]

lemma binary32_zero: "binary32 0 = 0"
  by (simp add: binary32_def fp_round_zero)

lemma binary64_zero: "binary64 0 = 0"
  by (simp add: binary64_def fp_round_zero)

lemma double_0_28: "binary64 0.28 = 5044031582654956 / 2 ^ 54"
  unfolding binary64_def
  by (subst fp_round_eval_nat [where m = 2]) (simp_all add: round_half_even_def Let_def)

lemma SkScalar_0_28: "binary32 (binary64 0.28) = 9395241 / 2 ^ 25"
  unfolding double_0_28 unfolding binary32_def
  by (subst fp_round_eval_nat [where m = 2]) (simp_all add: round_half_even_def Let_def)

lemma SkScalar_0_28_bounds: "0 < binary32 (binary64 0.28) \<and> binary32 (binary64 0.28) \<le> 0.5"
  unfolding SkScalar_0_28 by simp

subsection \<open>Clamping\<close>

lemma Clamp_spec_clamp: "lo \<le> hi \<Longrightarrow> Clamp v lo hi = spec_clamp v lo hi"
  by (simp add: Clamp_def spec_clamp_def min_def max_def)

lemma Clamp_bounds: "lo \<le> hi \<Longrightarrow> lo \<le> Clamp v lo hi \<and> Clamp v lo hi \<le> hi"
  by (simp add: Clamp_def min_def max_def)

lemma min_diff_bounds:
  "binary32 (binary64 0.28) \<le> OutlineColor_min_diff hsv1 hsv2 \<and>
   OutlineColor_min_diff hsv1 hsv2 \<le> 0.5"
proof (cases hsv1; cases hsv2)
  fix h1 s1 v1 h2 s2 v2
  assume eq: "hsv1 = (h1, s1, v1)" "hsv2 = (h2, s2, v2)"
  have "binary32 (binary64 0.28) \<le> 0.5"
    using SkScalar_0_28_bounds by blast
  from Clamp_bounds [OF this, of "binary32 (binary64 (binary32 (s1 + s2) * binary64 1.2))"]
  show ?thesis
    by (simp only: eq OutlineColor_min_diff.simps)
qed

lemma min_diff_spec: "OutlineColor_min_diff hsv1 hsv2 = spec_minDiff_rounded hsv1 hsv2"
proof (cases hsv1; cases hsv2)
  fix h1 s1 v1 h2 s2 v2
  assume eq: "hsv1 = (h1, s1, v1)" "hsv2 = (h2, s2, v2)"
  have "binary32 (binary64 0.28) \<le> 0.5"
    using SkScalar_0_28_bounds by blast
  from Clamp_spec_clamp
    [OF this, of "binary32 (binary64 (binary32 (s1 + s2) * binary64 1.2))"]
  show ?thesis
    by (simp only: eq OutlineColor_min_diff.simps spec_minDiff_rounded.simps)
qed

lemma diff_spec: "OutlineColor_diff hsv1 hsv2 = spec_diff_rounded hsv1 hsv2"
proof (cases hsv1; cases hsv2)
  fix h1 s1 v1 h2 s2 v2
  assume eq: "hsv1 = (h1, s1, v1)" "hsv2 = (h2, s2, v2)"
  have le: "OutlineColor_min_diff (h1, s1, v1) (h2, s2, v2) \<le> 0.5"
    using min_diff_bounds by blast
  have "Clamp (binary32 (\<bar>binary32 (v1 - v2)\<bar> / 2))
          (OutlineColor_min_diff (h1, s1, v1) (h2, s2, v2)) 0.5 =
        spec_clamp (binary32 (\<bar>binary32 (v1 - v2)\<bar> / 2))
          (spec_minDiff_rounded (h1, s1, v1) (h2, s2, v2)) 0.5"
    using Clamp_spec_clamp [OF le] min_diff_spec by simp
  then show ?thesis
    using eq by (simp add: Let_def del: OutlineColor_min_diff.simps spec_minDiff_rounded.simps)
qed

lemma diff_abs_bounds:
  "OutlineColor_min_diff hsv1 hsv2 \<le> \<bar>OutlineColor_diff hsv1 hsv2\<bar> \<and>
   \<bar>OutlineColor_diff hsv1 hsv2\<bar> \<le> 0.5"
proof (cases hsv1; cases hsv2)
  fix h1 s1 v1 h2 s2 v2
  assume eq: "hsv1 = (h1, s1, v1)" "hsv2 = (h2, s2, v2)"
  let ?m = "OutlineColor_min_diff (h1, s1, v1) (h2, s2, v2)"
  let ?c = "Clamp (binary32 (\<bar>binary32 (v1 - v2)\<bar> / 2)) ?m 0.5"
  have m: "0 < ?m" "?m \<le> 0.5"
    using min_diff_bounds [of "(h1, s1, v1)" "(h2, s2, v2)"] SkScalar_0_28_bounds by linarith+
  have c: "?m \<le> ?c" "?c \<le> 0.5"
    using Clamp_bounds [OF m(2)] by blast+
  show ?thesis
    using eq m c by (simp add: Let_def del: OutlineColor_min_diff.simps)
qed

lemma diff_sign:
  "OutlineColor_diff hsv1 hsv2 < 0 \<longleftrightarrow> binary32 (hsv_val hsv1 + hsv_val hsv2) > 1.0"
proof (cases hsv1; cases hsv2)
  fix h1 s1 v1 h2 s2 v2
  assume eq: "hsv1 = (h1, s1, v1)" "hsv2 = (h2, s2, v2)"
  let ?m = "OutlineColor_min_diff (h1, s1, v1) (h2, s2, v2)"
  let ?c = "Clamp (binary32 (\<bar>binary32 (v1 - v2)\<bar> / 2)) ?m 0.5"
  have m: "0 < ?m" "?m \<le> 0.5"
    using min_diff_bounds [of "(h1, s1, v1)" "(h2, s2, v2)"] SkScalar_0_28_bounds by linarith+
  have c: "?m \<le> ?c"
    using Clamp_bounds [OF m(2)] by blast
  show ?thesis
    using eq m c by (simp add: Let_def del: OutlineColor_min_diff.simps)
qed

lemma OutlineColor_via_hsv:
  "OutlineColor env hsv1 hsv2 = SkHSVToColor env (OutlineColor_hsv hsv1 hsv2)"
  by (simp add: OutlineColor_def SaturateAndBrighten_def OutlineColor_hsv_def)

subsection \<open>Inner spin button\<close>

text \<open>
  C1, as the code has it. With \<^verbatim>\<open>read_only\<close> false and the state \<^verbatim>\<open>kNormal\<close>, both halves
  are painted in the state \<^verbatim>\<open>kNormal\<close>, whatever \<^verbatim>\<open>spin_up\<close> is: the half that
  \<^verbatim>\<open>spin_up\<close> does not select is reset to \<^verbatim>\<open>kNormal\<close>, never to \<^verbatim>\<open>kDisabled\<close>. With
  \<^verbatim>\<open>read_only\<close> true both halves are painted \<^verbatim>\<open>kDisabled\<close>, whatever the state and
  \<^verbatim>\<open>spin_up\<close> are. The top half is painted by the arrow-button routine for the up arrow
  on the rectangle with half the height, then the bottom half by the routine for the down
  arrow on that rectangle moved down by half the height.
\<close>

theorem PaintInnerSpinButton_halves:
  "Paint env canvas kInnerSpinButton kNormal rect
     (extra\<lparr>inner_spin_params := \<lparr>spin_up = up, read_only = False\<rparr>\<rparr>) =
   PaintArrowButton env
     (PaintArrowButton env canvas
        (set_height (rect_height rect sdiv 2) rect) kScrollbarUpArrow kNormal)
     (set_y (rect_y rect + rect_height rect sdiv 2) (set_height (rect_height rect sdiv 2) rect))
     kScrollbarDownArrow kNormal
   \<and>
   Paint env canvas kInnerSpinButton state rect
     (extra\<lparr>inner_spin_params := \<lparr>spin_up = up, read_only = True\<rparr>\<rparr>) =
   PaintArrowButton env
     (PaintArrowButton env canvas
        (set_height (rect_height rect sdiv 2) rect) kScrollbarUpArrow kDisabled)
     (set_y (rect_y rect + rect_height rect sdiv 2) (set_height (rect_height rect sdiv 2) rect))
     kScrollbarDownArrow kDisabled"
  by (simp add: PaintInnerSpinButton_def InnerSpinButton_states_def Let_def)

text \<open>
  C1 as stated fails: in the state \<^verbatim>\<open>kNormal\<close> with \<^verbatim>\<open>spin_up\<close> true and \<^verbatim>\<open>read_only\<close>
  false, the top half is resolved to \<^verbatim>\<open>kNormal\<close>, not to \<^verbatim>\<open>kDisabled\<close>. On the
  rectangle (0, 0, 15, 28) the calls are those of a normal up arrow on (0, 0, 15, 14)
  followed by a normal down arrow on (0, 14, 15, 14); on a platform whose outline colour
  is not black they differ from the calls of a disabled up arrow followed by a normal
  down arrow.
\<close>

theorem PaintInnerSpinButton_top_half_not_disabled:
  "InnerSpinButton_states kNormal \<lparr>spin_up = True, read_only = False\<rparr> = (kNormal, kNormal)
   \<and> InnerSpinButton_states kNormal \<lparr>spin_up = True, read_only = False\<rparr> \<noteq> (kDisabled, kNormal)
   \<and> Paint stub_platform [] kInnerSpinButton kNormal (Rect_of 0 0 15 28) sample_extra =
       PaintArrowButton stub_platform
         (PaintArrowButton stub_platform [] (Rect_of 0 0 15 14) kScrollbarUpArrow kNormal)
         (Rect_of 0 14 15 14) kScrollbarDownArrow kNormal
   \<and> Paint stub_platform [] kInnerSpinButton kNormal (Rect_of 0 0 15 28) sample_extra \<noteq>
       PaintArrowButton stub_platform
         (PaintArrowButton stub_platform [] (Rect_of 0 0 15 14) kScrollbarUpArrow kDisabled)
         (Rect_of 0 14 15 14) kScrollbarDownArrow kNormal"
proof -
  have states:
    "InnerSpinButton_states kNormal \<lparr>spin_up = True, read_only = False\<rparr> = (kNormal, kNormal)"
    by (simp add: InnerSpinButton_states_def)
  have normal:
    "Paint stub_platform [] kInnerSpinButton kNormal (Rect_of 0 0 15 28) sample_extra =
     PaintArrowButton stub_platform
       (PaintArrowButton stub_platform [] (Rect_of 0 0 15 14) kScrollbarUpArrow kNormal)
       (Rect_of 0 14 15 14) kScrollbarDownArrow kNormal"
    by (simp add: PaintInnerSpinButton_def InnerSpinButton_states_def Let_def
        sample_extra_def Rect_of_def set_height_def set_y_def signed_divide_int_def)
  have disabled:
    "Paint stub_platform [] kInnerSpinButton kNormal (Rect_of 0 0 15 28) sample_extra \<noteq>
     PaintArrowButton stub_platform
       (PaintArrowButton stub_platform [] (Rect_of 0 0 15 14) kScrollbarUpArrow kDisabled)
       (Rect_of 0 14 15 14) kScrollbarDownArrow kNormal"
    by (simp add: PaintInnerSpinButton_def InnerSpinButton_states_def PaintArrowButton_def
        Let_def sample_extra_def Rect_of_def set_height_def set_y_def stub_platform_def
        drawIRect_def drawPath_def SkPaint_new_def OutlineColor_def SaturateAndBrighten_def
        SK_ColorBLACK_def SK_ColorWHITE_def signed_divide_int_def)
  show ?thesis
    using states normal disabled by simp
qed

subsection \<open>Outline colour\<close>

text \<open>
  C2, as the code has it. For every pair of HSV triples, \<^verbatim>\<open>OutlineColor\<close> returns
  \<^verbatim>\<open>SaturateAndBrighten(hsv_foreground, -0.2, diff)\<close> with \<open>minDiff\<close> and \<open>diff\<close> given by
  the formulas of the spec read in \<^verbatim>\<open>SkScalar\<close> arithmetic: \<open>minDiff\<close> is
  \<open>(sat_bg + sat_fg) * 1.2\<close> clamped to \<open>[0.28, 0.5]\<close>, \<open>diff\<close> is \<open>|val_bg - val_fg| / 2\<close>
  clamped to \<open>[minDiff, 0.5]\<close>, each sum, difference, product and constant rounded to
  binary32, and \<open>diff\<close> is negated exactly when the rounded sum of \<open>val_bg\<close> and
  \<open>val_fg\<close> is greater than 1. The source clamps with \<open>min (max v lo) hi\<close>, which is the
  clamp of the spec because each lower bound is at most its upper bound.
\<close>

theorem OutlineColor_as_specified:
  "OutlineColor env hsv_background hsv_foreground =
   SaturateAndBrighten env hsv_foreground (binary32 (- binary64 0.2))
     (spec_diff_rounded hsv_background hsv_foreground)"
  by (simp add: OutlineColor_def diff_spec)

text \<open>
  C2 as stated fails: for the background \<open>(0, 0, 1)\<close> and the foreground
  \<open>(0, 0, 2^-30)\<close> the two values add up to more than 1, so the formulas of the spec
  give a negative \<open>diff\<close> and, through \<^verbatim>\<open>SaturateAndBrighten\<close>, the value 0. The code
  adds the two values in \<^verbatim>\<open>float\<close>, where the sum is 1, does not negate, and returns the
  value 0.5 with \<open>diff = +0.5\<close>.
\<close>

theorem OutlineColor_rounded_sum_not_above_one:
  "spec_diff (0, 0, 1) (0, 0, 1 / 2 ^ 30) = - (1 / 2 - 1 / 2 ^ 31)
   \<and> OutlineColor_diff (0, 0, 1) (0, 0, 1 / 2 ^ 30) = 1 / 2
   \<and> hsv_val (SaturateAndBrighten_hsv (0, 0, 1 / 2 ^ 30) (binary32 (- binary64 0.2))
        (spec_diff (0, 0, 1) (0, 0, 1 / 2 ^ 30))) = 0
   \<and> hsv_val (OutlineColor_hsv (0, 0, 1) (0, 0, 1 / 2 ^ 30)) = 1 / 2"
proof -
  have spec: "spec_diff (0, 0, 1) (0, 0, 1 / 2 ^ 30) = - (1 / 2 - 1 / 2 ^ 31)"
    by (simp add: spec_clamp_def)
  have code: "OutlineColor_diff (0, 0, 1) (0, 0, 1 / 2 ^ 30) = 1 / 2"
    by (simp add: Clamp_def fp_eval)
  have spec_val:
    "hsv_val (SaturateAndBrighten_hsv (0, 0, 1 / 2 ^ 30) (binary32 (- binary64 0.2))
       (spec_diff (0, 0, 1) (0, 0, 1 / 2 ^ 30))) = 0"
    unfolding spec by (simp add: Clamp_def fp_eval)
  have code_val: "hsv_val (OutlineColor_hsv (0, 0, 1) (0, 0, 1 / 2 ^ 30)) = 1 / 2"
    unfolding OutlineColor_hsv_def code by (simp add: Clamp_def fp_eval)
  show ?thesis
    using spec code spec_val code_val by blast
qed

text \<open>
  C3, as the code has it. For every pair of HSV triples, the value adjustment that
  \<^verbatim>\<open>OutlineColor\<close> applies has a magnitude of at least \<open>minDiff\<close> and at most 0.5 and is
  negative exactly when the sum of \<open>val1\<close> and \<open>val2\<close>, rounded to binary32, is greater
  than 1; the value channel of the result is the rounded sum of \<open>val2\<close> and that
  adjustment, clamped to \<open>[0, 1]\<close>.
\<close>

theorem OutlineColor_value_adjustment:
  "OutlineColor_min_diff hsv1 hsv2 \<le> \<bar>OutlineColor_diff hsv1 hsv2\<bar>
   \<and> \<bar>OutlineColor_diff hsv1 hsv2\<bar> \<le> 0.5
   \<and> (OutlineColor_diff hsv1 hsv2 < 0 \<longleftrightarrow> binary32 (hsv_val hsv1 + hsv_val hsv2) > 1.0)
   \<and> hsv_val (OutlineColor_hsv hsv1 hsv2) =
       Clamp (binary32 (hsv_val hsv2 + OutlineColor_diff hsv1 hsv2)) 0 1"
proof -
  obtain h2 s2 v2 where eq: "hsv2 = (h2, s2, v2)"
    by (cases hsv2)
  have "hsv_val (OutlineColor_hsv hsv1 hsv2) =
        Clamp (binary32 (hsv_val hsv2 + OutlineColor_diff hsv1 hsv2)) 0 1"
    by (simp add: eq OutlineColor_hsv_def)
  then show ?thesis
    using diff_abs_bounds diff_sign by blast
qed

text \<open>
  C3 as stated fails in each of its three parts. For \<open>hsv1 = (0, 0, 0)\<close> and
  \<open>hsv2 = (0, 0, 0.875)\<close> the adjustment is \<open>+0.4375\<close>, the value channel of the result is
  clamped to 1 and differs from that of \<open>hsv2\<close> by 0.125, less than \<open>minDiff\<close>, which is
  0.28 as a \<^verbatim>\<open>float\<close>. For \<open>hsv1 = (0, 0, 1)\<close> and \<open>hsv2 = (0, 0, 2^-30)\<close> the values add
  up to more than 1 and the adjustment is positive. For \<open>hsv1 = (0, 0.5, 0)\<close> and
  \<open>hsv2 = (0, 0.5, 0.25 + 3 * 2^-25)\<close> the adjustment is \<open>+0.5\<close> and the rounded sum
  differs from the value of \<open>hsv2\<close> by more than 0.5.
\<close>

theorem OutlineColor_value_difference_outside_bounds:
  "OutlineColor_min_diff (0, 0, 0) (0, 0, 7 / 8) = 9395241 / 2 ^ 25
   \<and> hsv_val (OutlineColor_hsv (0, 0, 0) (0, 0, 7 / 8)) = 1
   \<and> \<bar>hsv_val (OutlineColor_hsv (0, 0, 0) (0, 0, 7 / 8)) - hsv_val (0, 0, 7 / 8)\<bar>
       < OutlineColor_min_diff (0, 0, 0) (0, 0, 7 / 8)
   \<and> hsv_val (0, 0, 1) + hsv_val (0, 0, 1 / 2 ^ 30) > (1::real)
   \<and> OutlineColor_diff (0, 0, 1) (0, 0, 1 / 2 ^ 30) = 1 / 2
   \<and> hsv_val (OutlineColor_hsv (0, 1 / 2, 0) (0, 1 / 2, 1 / 4 + 3 / 2 ^ 25)) =
       3 / 4 + 1 / 2 ^ 23
   \<and> 1 / 2 < \<bar>hsv_val (OutlineColor_hsv (0, 1 / 2, 0) (0, 1 / 2, 1 / 4 + 3 / 2 ^ 25))
               - hsv_val (0, 1 / 2, 1 / 4 + 3 / 2 ^ 25)\<bar>"
proof -
  have m1: "OutlineColor_min_diff (0, 0, 0) (0, 0, 7 / 8) = 9395241 / 2 ^ 25"
    by (simp add: Clamp_def fp_eval)
  have d1: "OutlineColor_diff (0, 0, 0) (0, 0, 7 / 8) = 7 / 16"
    by (simp add: Clamp_def fp_eval)
  have v1: "hsv_val (OutlineColor_hsv (0, 0, 0) (0, 0, 7 / 8)) = 1"
    unfolding OutlineColor_hsv_def d1 by (simp add: Clamp_def fp_eval)
  have d2: "OutlineColor_diff (0, 0, 1) (0, 0, 1 / 2 ^ 30) = 1 / 2"
    by (simp add: Clamp_def fp_eval)
  have m3: "OutlineColor_min_diff (0, 1 / 2, 0) (0, 1 / 2, 1 / 4 + 3 / 2 ^ 25) = 1 / 2"
    by (simp add: Clamp_def fp_eval)
  have d3: "OutlineColor_diff (0, 1 / 2, 0) (0, 1 / 2, 1 / 4 + 3 / 2 ^ 25) = 1 / 2"
    unfolding OutlineColor_diff.simps m3 by (simp add: Clamp_def fp_eval)
  have v3: "hsv_val (OutlineColor_hsv (0, 1 / 2, 0) (0, 1 / 2, 1 / 4 + 3 / 2 ^ 25)) =
            3 / 4 + 1 / 2 ^ 23"
    unfolding OutlineColor_hsv_def d3 by (simp add: Clamp_def fp_eval)
  show ?thesis
    unfolding m1 v1 d2 v3 by simp
qed

subsection \<open>Text field\<close>

text \<open>
  C4, as the code has it. For a text field that is not a text area, the routine draws the
  background fill and then four quads, in the order top, bottom, left, right: the top and
  the left quad in the dark colour, the bottom and the right quad in the light colour
  (the listbox pair when \<^verbatim>\<open>is_listbox\<close> holds), with a border width of 1 for a listbox
  and 2 otherwise. Each quad is a path of four points; the top, bottom and left quads join
  the outer corners of their edge to the inner inset corners, the right quad starts at
  the inner top corner, goes down to the bottom edge and ends with the two outer corners.
\<close>

theorem PaintTextField_inset_bevel:
  assumes "\<not> is_text_area (text_field_params extra)"
  shows "Paint env canvas kTextField state rect extra =
    (let text = text_field_params extra;
         light = (if is_listbox text then SkColorSetRGB 0x80 0x80 0x80
                  else SkColorSetRGB 0xee 0xee 0xee);
         dark = (if is_listbox text then SkColorSetRGB 0x2c 0x2c 0x2c
                 else SkColorSetRGB 0x9a 0x9a 0x9a);
         light_paint = \<lparr>paint_color = light, paint_style = kFill_Style,
                        paint_anti_alias = True, paint_shader = None\<rparr>;
         dark_paint = \<lparr>paint_color = dark, paint_style = kFill_Style,
                       paint_anti_alias = True, paint_shader = None\<rparr>;
         w = (if is_listbox text then 1 else 2);
         l = rect_x rect;
         t = rect_y rect;
         r = rect_x rect + rect_width rect;
         b = rect_y rect + rect_height rect
     in canvas @
        [DrawRect (real_of_int l, real_of_int t, real_of_int (r - 1), real_of_int (b - 1))
           \<lparr>paint_color = text_background_color text, paint_style = kFill_Style,
            paint_anti_alias = False, paint_shader = None\<rparr>,
         DrawPath [moveTo (real_of_int l) (real_of_int t),
                   lineTo (real_of_int (l + w)) (real_of_int (t + w)),
                   lineTo (real_of_int (r - w)) (real_of_int (t + w)),
                   lineTo (real_of_int r) (real_of_int t)] dark_paint,
         DrawPath [moveTo (real_of_int (l + w)) (real_of_int (b - w)),
                   lineTo (real_of_int l) (real_of_int b),
                   lineTo (real_of_int r) (real_of_int b),
                   lineTo (real_of_int (r - w)) (real_of_int (b - w))] light_paint,
         DrawPath [moveTo (real_of_int l) (real_of_int t),
                   lineTo (real_of_int l) (real_of_int b),
                   lineTo (real_of_int (l + w)) (real_of_int (b - w)),
                   lineTo (real_of_int (l + w)) (real_of_int (t + w))] dark_paint,
         DrawPath [moveTo (real_of_int (r - w)) (real_of_int (t + w)),
                   lineTo (real_of_int (r - w)) (real_of_int b),
                   lineTo (real_of_int r) (real_of_int b),
                   lineTo (real_of_int r) (real_of_int t)] light_paint])"
  using assms
  by (simp add: PaintTextField_def Let_def drawRect_def drawPath_def SkPaint_new_def
      right_def bottom_def)

theorem PaintTextField_inset_bevel_witness:
  "\<not> is_text_area (text_field_params sample_extra)
   \<and> length (Paint stub_platform [] kTextField kNormal (Rect_of 0 0 20 10) sample_extra) = 5"
  using PaintTextField_inset_bevel
    [of sample_extra stub_platform "[]" kNormal "Rect_of 0 0 20 10"]
  by (simp add: sample_extra_def Let_def)

text \<open>
  C4 as stated fails: on the rectangle (0, 0, 20, 10) with a white background, neither a
  text area nor a listbox, the top quad is painted in the dark colour \<open>0x9a9a9a\<close> and the
  bottom quad in the light colour \<open>0xeeeeee\<close>; the second point of the right quad is
  (18, 10), not the inset corner (18, 8).
\<close>

theorem PaintTextField_top_quad_is_dark:
  "Paint stub_platform [] kTextField kNormal (Rect_of 0 0 20 10) sample_extra =
     [DrawRect (0, 0, 19, 9)
        \<lparr>paint_color = 0xFFFFFFFF, paint_style = kFill_Style,
         paint_anti_alias = False, paint_shader = None\<rparr>,
      DrawPath [moveTo 0 0, lineTo 2 2, lineTo 18 2, lineTo 20 0]
        \<lparr>paint_color = 0xFF9A9A9A, paint_style = kFill_Style,
         paint_anti_alias = True, paint_shader = None\<rparr>,
      DrawPath [moveTo 2 8, lineTo 0 10, lineTo 20 10, lineTo 18 8]
        \<lparr>paint_color = 0xFFEEEEEE, paint_style = kFill_Style,
         paint_anti_alias = True, paint_shader = None\<rparr>,
      DrawPath [moveTo 0 0, lineTo 0 10, lineTo 2 8, lineTo 2 2]
        \<lparr>paint_color = 0xFF9A9A9A, paint_style = kFill_Style,
         paint_anti_alias = True, paint_shader = None\<rparr>,
      DrawPath [moveTo 18 2, lineTo 18 10, lineTo 20 10, lineTo 20 0]
        \<lparr>paint_color = 0xFFEEEEEE, paint_style = kFill_Style,
         paint_anti_alias = True, paint_shader = None\<rparr>]"
  by (simp add: PaintTextField_def Let_def drawRect_def drawPath_def SkPaint_new_def
      right_def bottom_def sample_extra_def Rect_of_def SkColorSetRGB_def SkColorSetARGB_def)

subsection \<open>Push button\<close>

text \<open>
  C5: for every state and every \<^verbatim>\<open>ButtonExtraParams\<close>, painting a push button on a
  rectangle that is less than 5 wide or less than 5 high makes exactly one call, a
  rectangle fill over the whole rectangle with the background colour and no shader: no
  gradient is created, and no border line or corner point is drawn, whatever
  \<^verbatim>\<open>has_border\<close> is.
\<close>

theorem PaintButton_small_rect_flat_fill:
  assumes "rect_width rect < 5 \<or> rect_height rect < 5"
  shows "Paint env canvas kPushButton state rect extra =
    canvas @
    [DrawRect (real_of_int (rect_x rect), real_of_int (rect_y rect),
               real_of_int (rect_x rect + rect_width rect),
               real_of_int (rect_y rect + rect_height rect))
       \<lparr>paint_color = button_background_color (button_params extra),
        paint_style = kFill_Style, paint_anti_alias = False, paint_shader = None\<rparr>]"
  using assms
  by (simp add: PaintButton_def Let_def drawRect_def SkPaint_new_def right_def bottom_def)

theorem PaintButton_small_rect_flat_fill_witness:
  "button_has_border (button_params sample_extra)
   \<and> rect_width (Rect_of 0 0 4 10) < 5
   \<and> Paint stub_platform [] kPushButton kHovered (Rect_of 0 0 4 10) sample_extra =
       [DrawRect (0, 0, 4, 10)
          \<lparr>paint_color = 0xFFDDDDDD, paint_style = kFill_Style,
           paint_anti_alias = False, paint_shader = None\<rparr>]"
  using PaintButton_small_rect_flat_fill
    [of "Rect_of 0 0 4 10" stub_platform "[]" kHovered sample_extra]
  by (simp add: sample_extra_def Rect_of_def)

subsection \<open>Slider thumb\<close>

text \<open>
  C6, as the code has it. Painting a slider thumb makes six calls for the two halves and
  the box, and then draws the three horizontal ticks, at the midpoint row and three rows
  above and below it, from two columns left of the midpoint to two columns right of it,
  if and only if the rectangle is more than 10 wide and more than 10 high. So a 12 by 12
  rectangle gets the ticks, and a 9 by 9 and a 10 by 10 rectangle get none.
\<close>

theorem PaintSliderThumb_ticks:
  "\<exists>body. length body = 6 \<and>
     Paint env canvas kSliderThumb state rect extra =
       canvas @ body @
       (if rect_height rect > 10 \<and> rect_width rect > 10
        then [DrawIRect (rect_x rect + rect_width rect sdiv 2 - 2,
                         rect_y rect + rect_height rect sdiv 2,
                         rect_x rect + rect_width rect sdiv 2 + 2 + 1,
                         rect_y rect + rect_height rect sdiv 2 + 1)
                (SkPaint_new\<lparr>paint_color := kSliderThumbBorderDarkGrey\<rparr>),
              DrawIRect (rect_x rect + rect_width rect sdiv 2 - 2,
                         rect_y rect + rect_height rect sdiv 2 - 3,
                         rect_x rect + rect_width rect sdiv 2 + 2 + 1,
                         rect_y rect + rect_height rect sdiv 2 - 3 + 1)
                (SkPaint_new\<lparr>paint_color := kSliderThumbBorderDarkGrey\<rparr>),
              DrawIRect (rect_x rect + rect_width rect sdiv 2 - 2,
                         rect_y rect + rect_height rect sdiv 2 + 3,
                         rect_x rect + rect_width rect sdiv 2 + 2 + 1,
                         rect_y rect + rect_height rect sdiv 2 + 3 + 1)
                (SkPaint_new\<lparr>paint_color := kSliderThumbBorderDarkGrey\<rparr>)]
        else [])"
  by (simp add: PaintSliderThumb_def Let_def drawIRect_def DrawBox_def DrawHorizLine_def
      DrawVertLine_def)

text \<open>
  C6 as stated fails: a hovered horizontal thumb on the rectangle (0, 0, 10, 10), which is
  at least 10 by 10, gets the two halves and the four lines of the box and no tick.
\<close>

theorem PaintSliderThumb_no_ticks_at_10_by_10:
  "Paint stub_platform [] kSliderThumb kHovered (Rect_of 0 0 10 10) sample_extra =
     [DrawIRect (0, 0, 10, 6) (SkPaint_new\<lparr>paint_color := SK_ColorWHITE\<rparr>),
      DrawIRect (0, 6, 10, 10) (SkPaint_new\<lparr>paint_color := kSliderThumbLightGrey\<rparr>),
      DrawIRect (0, 0, 10, 1) (SkPaint_new\<lparr>paint_color := kSliderThumbBorderDarkGrey\<rparr>),
      DrawIRect (9, 0, 10, 10) (SkPaint_new\<lparr>paint_color := kSliderThumbBorderDarkGrey\<rparr>),
      DrawIRect (0, 9, 10, 10) (SkPaint_new\<lparr>paint_color := kSliderThumbBorderDarkGrey\<rparr>),
      DrawIRect (0, 0, 1, 10) (SkPaint_new\<lparr>paint_color := kSliderThumbBorderDarkGrey\<rparr>)]"
  by (simp add: PaintSliderThumb_def Let_def drawIRect_def DrawBox_def DrawHorizLine_def
      DrawVertLine_def Rect_of_def sample_extra_def right_def bottom_def
      signed_divide_int_def)

subsection \<open>Progress bar\<close>

text \<open>
  C7: for every state, rectangle and \<^verbatim>\<open>ProgressBarExtraParams\<close>, painting a progress bar
  tiles the background bar image over the rectangle, tiles the value image into the
  value rectangle if and only if \<^verbatim>\<open>value_rect_width\<close> is not zero, and then draws the left
  and the right border cap. Both tilings use the same uniform scale (the height of the
  rectangle over the height of the bar image) and a horizontal scale derived from it
  through the tile width. Each cap is drawn whole, as high as the rectangle and as wide
  as that scale makes it; the left cap starts at the left edge of the rectangle and the
  right cap ends at its right edge.
\<close>

theorem PaintProgressBar_calls:
  "Paint env canvas kProgressBar state rect extra =
     canvas @
     [CanvasTileImageInt IDR_PROGRESS_BAR 0 0
        (spec_tile_scale_x env rect IDR_PROGRESS_BAR) (spec_tile_scale env rect)
        (rect_x rect) (rect_y rect) (rect_width rect) (rect_height rect)] @
     (if value_rect_width (progress_bar_params extra) \<noteq> 0
      then [CanvasTileImageInt IDR_PROGRESS_VALUE 0 0
              (spec_tile_scale_x env rect IDR_PROGRESS_VALUE) (spec_tile_scale env rect)
              (value_rect_x (progress_bar_params extra))
              (value_rect_y (progress_bar_params extra))
              (value_rect_width (progress_bar_params extra))
              (value_rect_height (progress_bar_params extra))]
      else []) @
     [CanvasDrawImageInt IDR_PROGRESS_BORDER_LEFT 0 0
        (image_width env IDR_PROGRESS_BORDER_LEFT) (image_height env IDR_PROGRESS_BORDER_LEFT)
        (rect_x rect) (rect_y rect)
        (spec_cap_width env rect IDR_PROGRESS_BORDER_LEFT) (rect_height rect) True,
      CanvasDrawImageInt IDR_PROGRESS_BORDER_RIGHT 0 0
        (image_width env IDR_PROGRESS_BORDER_RIGHT) (image_height env IDR_PROGRESS_BORDER_RIGHT)
        (rect_x rect + rect_width rect - spec_cap_width env rect IDR_PROGRESS_BORDER_RIGHT)
        (rect_y rect)
        (spec_cap_width env rect IDR_PROGRESS_BORDER_RIGHT) (rect_height rect) True]"
  by (simp add: PaintProgressBar_def Let_def DrawTiledImage_def DrawImageInt_def
      spec_tile_scale_def spec_tile_scale_x_def spec_cap_width_def right_def)

subsection \<open>System colours and part sizes\<close>

text \<open>
  C8: \<^verbatim>\<open>GetSystemColor\<close> returns a colour for every colour identifier, and the same one
  for all of them: opaque black.
\<close>

theorem GetSystemColor_constant:
  "GetSystemColor color_id = SK_ColorBLACK
   \<and> GetSystemColor color_id = GetSystemColor other_id"
  by (simp add: GetSystemColor_def)

text \<open>
  C9: for every state and every extra parameters, the size of the inner spin button is
  (15, 0): the scrollbar width, which is not zero, and a height of zero. The part is in
  neither group of the spec, and its size is neither the empty size of the parts without
  a default size nor the size of any part with a fixed one.
\<close>

theorem GetPartSize_InnerSpinButton:
  "GetPartSize kInnerSpinButton state extra = \<lparr>size_width = 15, size_height = 0\<rparr>
   \<and> size_width (GetPartSize kInnerSpinButton state extra) = kScrollbarWidth
   \<and> size_width (GetPartSize kInnerSpinButton state extra) \<noteq> 0
   \<and> size_height (GetPartSize kInnerSpinButton state extra) = 0
   \<and> kInnerSpinButton \<notin> set spec_fixed_size_parts
   \<and> kInnerSpinButton \<notin> set spec_no_default_size_parts
   \<and> GetPartSize kInnerSpinButton state extra \<noteq> Size_empty
   \<and> GetPartSize kInnerSpinButton state extra \<notin>
       set (map (\<lambda>part. GetPartSize part state extra)
              (spec_fixed_size_parts @ spec_no_default_size_parts))"
  by (simp add: Size_of_def Size_empty_def kScrollbarWidth_def kButtonLength_def
      kCheckboxAndRadioWidth_def kCheckboxAndRadioHeight_def kSliderThumbWidth_def
      kSliderThumbHeight_def spec_fixed_size_parts_def spec_no_default_size_parts_def)

subsection \<open>Checkbox and radio button\<close>

text \<open>
  C10: for a checkbox and for a radio button, with the rectangle and the parameters fixed,
  painting in the states \<^verbatim>\<open>kHovered\<close> and \<^verbatim>\<open>kPressed\<close> makes the same calls as
  painting in the state \<^verbatim>\<open>kNormal\<close>: the same image, drawn at the same place.
\<close>

theorem Checkbox_Radio_enabled_states_agree:
  "Paint env canvas kCheckbox kHovered rect extra = Paint env canvas kCheckbox kNormal rect extra
   \<and> Paint env canvas kCheckbox kPressed rect extra = Paint env canvas kCheckbox kNormal rect extra
   \<and> Paint env canvas kRadio kHovered rect extra = Paint env canvas kRadio kNormal rect extra
   \<and> Paint env canvas kRadio kPressed rect extra = Paint env canvas kRadio kNormal rect extra"
  by (simp add: PaintCheckbox_def PaintRadio_def)

end
